theory Spec2Isabelle
  imports Main "HOL-Library.Word"
begin

section \<open>Python values and library functions used by main.py\<close>

text \<open>
  Python's \<open>str\<close> is modelled as \<open>string\<close>: a list of code points below 256.
  Python's \<open>bytes\<close> is a list of 8-bit words. An exception is a value of \<open>error\<close>;
  a function that may raise returns \<open>error + 'a\<close>, or, where the state it has
  mutated before raising stays visible, a pair of \<open>error option\<close> and the state.
\<close>

type_synonym byte = "8 word"
type_synonym bytes = "byte list"

datatype error =
    OSError
  | UnicodeDecodeError
  | UnicodeEncodeError
  | LookupError
  | AttributeError
  | IndexError
  | ValueError
  | EmptySessionError
    \<comment> \<open>the error kind named by the specification; no statement of main.py raises it\<close>

datatype 'a kwarg = Omitted | Given 'a

definition default :: "'a \<Rightarrow> 'a kwarg \<Rightarrow> 'a" where
  "default d a = (case a of Omitted \<Rightarrow> d | Given x \<Rightarrow> x)"

abbreviation NL :: char where "NL \<equiv> CHR 0x0A"
abbreviation CR :: char where "CR \<equiv> CHR 0x0D"
abbreviation DQ :: char where "DQ \<equiv> CHR 0x22"
abbreviation BSL :: char where "BSL \<equiv> CHR 0x5C"

subsection \<open>str and bytes methods\<close>

definition startswith :: "'a list \<Rightarrow> 'a list \<Rightarrow> bool" where
  "startswith s p = (take (length p) s = p)"

definition endswith :: "'a list \<Rightarrow> 'a list \<Rightarrow> bool" where
  "endswith s p = (length p \<le> length s \<and> drop (length s - length p) s = p)"

definition isspace :: "char \<Rightarrow> bool" where
  \<comment> \<open>\<open>str.isspace\<close> on the code points below 256\<close>
  "isspace c = (c \<in> set [CHR 0x09, CHR 0x0A, CHR 0x0B, CHR 0x0C, CHR 0x0D, CHR 0x1C, CHR 0x1D,
                          CHR 0x1E, CHR 0x1F, CHR 0x20, CHR 0x85, CHR 0xA0])"

definition isdigit :: "char \<Rightarrow> bool" where
  "isdigit c = (c \<in> set ''0123456789'')"

definition lstrip :: "string \<Rightarrow> string" where
  "lstrip s = dropWhile isspace s"

definition rstrip :: "string \<Rightarrow> string" where
  "rstrip s = rev (dropWhile isspace (rev s))"

definition strip :: "string \<Rightarrow> string" where
  "strip s = lstrip (rstrip s)"

definition upper_char :: "char \<Rightarrow> char" where
  \<comment> \<open>\<open>str.upper\<close> on one code point below 256; the three code points whose upper case
      is not a single code point below 256 (0xB5, 0xDF, 0xFF) are left as they are, and
      no pattern of main.py matches a string that holds one of them or its upper case\<close>
  "upper_char c =
     (let n = (of_char c :: nat)
      in if (97 \<le> n \<and> n \<le> 122) \<or> (224 \<le> n \<and> n \<le> 254 \<and> n \<noteq> 247)
         then char_of (n - 32) else c)"

definition upper :: "string \<Rightarrow> string" where
  "upper s = map upper_char s"

fun split_max :: "char \<Rightarrow> nat \<Rightarrow> string \<Rightarrow> string list" where
  \<comment> \<open>\<open>s.split(sep, maxsplit)\<close> for a separator of one character\<close>
  "split_max sep 0 s = [s]"
| "split_max sep (Suc n) s =
     (if sep \<in> set s
      then takeWhile (\<lambda>c. c \<noteq> sep) s # split_max sep n (tl (dropWhile (\<lambda>c. c \<noteq> sep) s))
      else [s])"

definition split_all :: "char \<Rightarrow> string \<Rightarrow> string list" where
  \<comment> \<open>\<open>s.split(sep)\<close>: no bound on the number of splits\<close>
  "split_all sep s = split_max sep (length s) s"

fun split_first :: "string \<Rightarrow> string \<Rightarrow> string" where
  \<comment> \<open>\<open>s.split(sep)[0]\<close>: the text before the first occurrence of \<open>sep\<close>\<close>
  "split_first sep [] = []"
| "split_first sep (c # cs) =
     (if startswith (c # cs) sep then [] else c # split_first sep cs)"

fun replace_all :: "string \<Rightarrow> string \<Rightarrow> string \<Rightarrow> string" where
  \<comment> \<open>\<open>s.replace(old, new)\<close> for a non-empty \<open>old\<close>\<close>
  "replace_all old new [] = []"
| "replace_all old new (c # cs) =
     (if old \<noteq> [] \<and> startswith (c # cs) old
      then new @ replace_all old new (drop (length old - 1) cs)
      else c # replace_all old new cs)"

fun replace_first :: "string \<Rightarrow> string \<Rightarrow> string \<Rightarrow> string" where
  \<comment> \<open>\<open>s.replace(old, new, 1)\<close> for a non-empty \<open>old\<close>\<close>
  "replace_first old new [] = []"
| "replace_first old new (c # cs) =
     (if old \<noteq> [] \<and> startswith (c # cs) old
      then new @ drop (length old - 1) cs
      else c # replace_first old new cs)"

definition index :: "'a list \<Rightarrow> nat \<Rightarrow> error + 'a" where
  \<comment> \<open>\<open>xs[i]\<close> for \<open>i \<ge> 0\<close>\<close>
  "index xs i = (if i < length xs then Inr (xs ! i) else Inl IndexError)"

definition digit_char :: "nat \<Rightarrow> char" where
  "digit_char d = char_of (48 + d)"

fun str_nat :: "nat \<Rightarrow> string" where
  \<comment> \<open>\<open>str(n)\<close> for \<open>n \<ge> 0\<close>\<close>
  "str_nat n = (if n < 10 then [digit_char n] else str_nat (n div 10) @ [digit_char (n mod 10)])"

declare str_nat.simps [simp del]

definition str_int :: "int \<Rightarrow> string" where
  "str_int i = (if i < 0 then CHR ''-'' # str_nat (nat (- i)) else str_nat (nat i))"

definition digit_val :: "char \<Rightarrow> int" where
  "digit_val c = of_char c - 48"

definition int_of_digits :: "string \<Rightarrow> int" where
  \<comment> \<open>\<open>int(s)\<close> for a non-empty string of decimal digits\<close>
  "int_of_digits s = foldl (\<lambda>a c. 10 * a + digit_val c) 0 s"

definition ascii :: "string \<Rightarrow> bytes" where
  \<comment> \<open>the bytes literal \<open>b'...'\<close> with the given ASCII text\<close>
  "ascii s = map of_char s"

subsection \<open>The codecs module\<close>

text \<open>
  The byte-order marks of CPython's \<open>codecs\<close> module. \<open>codecs.BOM\<close> and the two
  generic marks are those of the platform's byte order, taken as little-endian.
  The module has no attribute \<open>BOM_UTF64_BE\<close>.
\<close>

definition BOM_UTF8 :: bytes where "BOM_UTF8 = [0xEF, 0xBB, 0xBF]"
definition BOM_UTF16_LE :: bytes where "BOM_UTF16_LE = [0xFF, 0xFE]"
definition BOM_UTF16_BE :: bytes where "BOM_UTF16_BE = [0xFE, 0xFF]"
definition BOM_UTF32_LE :: bytes where "BOM_UTF32_LE = [0xFF, 0xFE, 0x00, 0x00]"
definition BOM_UTF32_BE :: bytes where "BOM_UTF32_BE = [0x00, 0x00, 0xFE, 0xFF]"
definition BOM :: bytes where "BOM = BOM_UTF16_LE"
definition BOM_UTF32 :: bytes where "BOM_UTF32 = BOM_UTF32_LE"

text \<open>
  A fragment of CPython's codec registry, for running the model on concrete input: the
  codecs UTF-8, UTF-16-BE, UTF-16-LE, Latin-1 and ASCII under the spellings listed, on
  code points below 256. A name that CPython does not know raises \<open>LookupError\<close>; so
  does, here, every name that is not listed, among them names that CPython knows: other
  spellings of these codecs, the generic \<open>utf-16\<close> and \<open>utf-32\<close>, the code pages.
  The UTF-8 decoder refuses the bytes of a code point of 256 or more, which a
  \<open>string\<close> cannot hold. The fragment is used only to run the example sessions, all of
  which stay inside it; the general theorems below hold for every encoder and decoder.
\<close>

datatype codec = UTF8 | UTF16BE | UTF16LE | LATIN1 | ASCII

definition lookup :: "string \<Rightarrow> codec option" where
  "lookup name =
     map_of [(''utf-8'', UTF8), (''utf8'', UTF8), (''UTF-8'', UTF8), (''utf_8'', UTF8),
             (''utf-16-be'', UTF16BE), (''utf-16be'', UTF16BE), (''UTF-16BE'', UTF16BE),
             (''utf_16_be'', UTF16BE),
             (''utf-16-le'', UTF16LE), (''utf-16le'', UTF16LE), (''UTF-16LE'', UTF16LE),
             (''utf_16_le'', UTF16LE),
             (''latin-1'', LATIN1), (''latin1'', LATIN1), (''iso-8859-1'', LATIN1),
             (''ascii'', ASCII)] name"

definition encode_char :: "codec \<Rightarrow> char \<Rightarrow> bytes option" where
  "encode_char c x =
     (let n = (of_char x :: nat)
      in case c of
           UTF8 \<Rightarrow> Some (if n < 128 then [of_nat n] else [of_nat (192 + n div 64), of_nat (128 + n mod 64)])
         | UTF16BE \<Rightarrow> Some [0, of_nat n]
         | UTF16LE \<Rightarrow> Some [of_nat n, 0]
         | LATIN1 \<Rightarrow> Some [of_nat n]
         | ASCII \<Rightarrow> if n < 128 then Some [of_nat n] else None)"

definition py_encode :: "string \<Rightarrow> string \<Rightarrow> error + bytes" where
  \<comment> \<open>\<open>bytes(s, encoding=name)\<close>\<close>
  "py_encode name s =
     (case lookup name of
        None \<Rightarrow> Inl LookupError
      | Some c \<Rightarrow>
          if list_all (\<lambda>x. encode_char c x \<noteq> None) s
          then Inr (concat (map (\<lambda>x. the (encode_char c x)) s))
          else Inl UnicodeEncodeError)"

fun decode_utf8 :: "bytes \<Rightarrow> string option" where
  \<comment> \<open>UTF-8 for the code points below 256: one byte below 128, or a lead byte 0xC2 or
      0xC3 and one continuation byte\<close>
  "decode_utf8 [] = Some []"
| "decode_utf8 [b] = (if unat b < 128 then Some [char_of (unat b)] else None)"
| "decode_utf8 (b # b' # bs) =
     (if unat b < 128 then map_option (\<lambda>r. char_of (unat b) # r) (decode_utf8 (b' # bs))
      else if (b = 0xC2 \<or> b = 0xC3) \<and> 128 \<le> unat b' \<and> unat b' < 192
      then map_option (\<lambda>r. char_of ((unat b - 192) * 64 + (unat b' - 128)) # r) (decode_utf8 bs)
      else None)"

fun decode_pairs :: "bool \<Rightarrow> bytes \<Rightarrow> string option" where
  \<comment> \<open>UTF-16 for the code points below 256; the flag is true for big-endian\<close>
  "decode_pairs be [] = Some []"
| "decode_pairs be [b] = None"
| "decode_pairs be (b # b' # bs) =
     (if (if be then b else b') = 0
      then map_option (\<lambda>r. char_of (unat (if be then b' else b)) # r) (decode_pairs be bs)
      else None)"

definition py_decode :: "string \<Rightarrow> bytes \<Rightarrow> error + string" where
  \<comment> \<open>\<open>b.decode(name)\<close>\<close>
  "py_decode name b =
     (case lookup name of
        None \<Rightarrow> Inl LookupError
      | Some c \<Rightarrow>
         (case (case c of
                  UTF8 \<Rightarrow> decode_utf8 b
                | UTF16BE \<Rightarrow> decode_pairs True b
                | UTF16LE \<Rightarrow> decode_pairs False b
                | LATIN1 \<Rightarrow> Some (map (\<lambda>x. char_of (unat x)) b)
                | ASCII \<Rightarrow> if list_all (\<lambda>x. unat x < 128) b
                           then Some (map (\<lambda>x. char_of (unat x)) b) else None) of
            None \<Rightarrow> Inl UnicodeDecodeError
          | Some s \<Rightarrow> Inr s))"

section \<open>normalize_color\<close>

definition COLORS :: "(string \<times> string) list" where
  "COLORS =
    [(''RED'', ''#FF003B''), (''BLUE'', ''#00ADFF''), (''GREEN'', ''#B4FF00''),
     (''WHITE'', ''#FFFFFF''), (''YELLOW'', ''#FFEB00''), (''CYAN'', ''#00FFFF''),
     (''MAGENTA'', ''#FF00FF''), (''ORANGE'', ''#FFA500''), (''PURPLE'', ''#800080''),
     (''PINK'', ''#FFC0CB'')]"

definition COLORS_WHITE :: string where
  "COLORS_WHITE = ''#FFFFFF''"

definition is_hex6 :: "string \<Rightarrow> bool" where
  \<comment> \<open>\<open>[0-9A-F]{6}\<close> over the whole string\<close>
  "is_hex6 s = (length s = 6 \<and> list_all (\<lambda>c. c \<in> set ''0123456789ABCDEF'') s)"

definition rgb_match :: "string \<Rightarrow> (string \<times> string \<times> string) option" where
  \<comment> \<open>\<open>re.match(r'^\((\d+),\s*(\d+),\s*(\d+)\)$', s)\<close> on a stripped string: the groups\<close>
  "rgb_match s =
     (case s of [] \<Rightarrow> None
      | c # s1 \<Rightarrow>
        if c \<noteq> CHR ''('' then None
        else let r = takeWhile isdigit s1; s2 = dropWhile isdigit s1
          in if r = [] \<or> \<not> startswith s2 '','' then None
          else let s3 = dropWhile isspace (tl s2);
                   g = takeWhile isdigit s3; s4 = dropWhile isdigit s3
            in if g = [] \<or> \<not> startswith s4 '','' then None
            else let s5 = dropWhile isspace (tl s4);
                     b = takeWhile isdigit s5; s6 = dropWhile isdigit s5
              in if b = [] \<or> s6 \<noteq> '')'' then None else Some (r, g, b))"

definition hex2 :: "int \<Rightarrow> string" where
  \<comment> \<open>\<open>f'{n:02x}'.upper()\<close> for \<open>n \<le> 255\<close>\<close>
  "hex2 n = [''0123456789ABCDEF'' ! nat (n div 16), ''0123456789ABCDEF'' ! nat (n mod 16)]"

definition normalize_color :: "string option \<Rightarrow> string option" where
  "normalize_color color =
     (case color of None \<Rightarrow> None
      | Some raw \<Rightarrow>
        if raw = [] then None
        else let color = upper (strip raw)
          in (case map_of COLORS color of Some hex \<Rightarrow> Some hex
              | None \<Rightarrow>
                if startswith color ''#'' \<and> is_hex6 (tl color) then Some color
                else if is_hex6 color then Some (CHR ''#'' # color)
                else (case rgb_match color of
                        Some (r, g, b) \<Rightarrow>
                          if list_all (\<lambda>x. int_of_digits x \<le> 255) [r, g, b]
                          then Some (CHR ''#'' # hex2 (int_of_digits r) @ hex2 (int_of_digits g)
                                       @ hex2 (int_of_digits b))
                          else Some COLORS_WHITE
                      | None \<Rightarrow> Some COLORS_WHITE)))"

section \<open>Merger\<close>

subsection \<open>insert_bom\<close>

definition insert_bom :: "bytes \<Rightarrow> string \<Rightarrow> error + bytes" where
  "insert_bom content encoding =
     (let encoding = upper (replace_all '' '' '''' (replace_all ''_'' '''' (replace_all ''-'' '''' encoding)))
      in if encoding \<in> set [''UTF64LE'', ''UTF16'', ''UTF16LE''] then Inr (BOM @ content)
         else if encoding \<in> set [''UTF8''] then Inr (BOM_UTF8 @ content)
         else if encoding \<in> set [''UTF32LE''] then Inr (BOM_UTF32_LE @ content)
         else if encoding \<in> set [''UTF64BE''] then Inl AttributeError
         else if encoding \<in> set [''UTF16BE''] then Inr (BOM_UTF32_BE @ content)
         else if encoding \<in> set [''UTF32BE''] then Inr (BOM_UTF32_BE @ content)
         else if encoding \<in> set [''UTF32''] then Inr (BOM_UTF32 @ content)
         else Inr content)"

subsection \<open>The session and its sources\<close>

text \<open>
  One entry of \<open>self.subtitles\<close>: the dict built by \<open>add\<close>. The keys of
  \<open>sub['dialogs']\<close> are start times, see \<open>strptime_timestamp\<close> below.
\<close>

record subtitle =
  sub_address :: string
  sub_codec :: string
  sub_color :: "string option"
  sub_size :: "int option"
  sub_dialogs :: "int \<rightharpoonup> string"
  sub_data :: string
  sub_raw_dialogs :: "string list"

record merger =
  timestamps :: "int list"
  subtitles :: "subtitle list"
  lines :: "bytes list"
  output_path :: string
  output_name :: string
  output_encoding :: string
  font_sizes :: "int list"

definition init :: "string kwarg \<Rightarrow> string kwarg \<Rightarrow> string kwarg \<Rightarrow> merger" where
  \<comment> \<open>\<open>Merger.__init__\<close>; it sets no attribute \<open>logger\<close>\<close>
  "init output_path_arg output_name_arg output_encoding_arg =
     \<lparr>timestamps = [], subtitles = [], lines = [],
      output_path = default ''.'' output_path_arg,
      output_name = default ''subtitle_name.srt'' output_name_arg,
      output_encoding = default ''utf-8'' output_encoding_arg,
      font_sizes = []\<rparr>"

text \<open>
  The file system the session reads and writes: the content of each existing file, and
  whether a path can be opened for writing.
\<close>

record world =
  self :: merger
  files :: "string \<rightharpoonup> bytes"
  writable :: "string \<Rightarrow> bool"

fun for_each :: "('a \<Rightarrow> 's \<Rightarrow> error option \<times> 's) \<Rightarrow> 'a list \<Rightarrow> 's \<Rightarrow> error option \<times> 's" where
  \<comment> \<open>a \<open>for\<close> loop whose body may raise: the first exception ends the loop and
      leaves the state as the body left it\<close>
  "for_each body [] st = (None, st)"
| "for_each body (x # xs) st =
     (case body x st of
        (None, st') \<Rightarrow> for_each body xs st'
      | (Some e, st') \<Rightarrow> (Some e, st'))"

subsection \<open>The start time of a cue\<close>

text \<open>
  \<open>datetime.datetime.strptime(timestamp, '%H:%M:%S,%f').timestamp()\<close>.
  \<open>strptime\<close> matches hours (one or two digits, at most 23), minutes and seconds (one
  or two digits each; a second of 60 or 61 passes the pattern and is refused by the
  \<open>datetime\<close> constructor) and a fraction of one to six digits, padded to microseconds on
  the right, and raises \<open>ValueError\<close> when the string does not match or text remains.
  The float that \<open>timestamp()\<close> returns (on a platform whose local time reaches back
  to the year 1900, the year \<open>strptime\<close> fills in) is a fixed offset plus the seconds
  since midnight;
  it is modelled by the integer number of microseconds since midnight, which has the
  same order and the same equalities.
\<close>

definition cut :: "char \<Rightarrow> string \<Rightarrow> (string \<times> string) option" where
  "cut sep s =
     (if sep \<in> set s
      then Some (takeWhile (\<lambda>c. c \<noteq> sep) s, tl (dropWhile (\<lambda>c. c \<noteq> sep) s))
      else None)"

definition field2 :: "string \<Rightarrow> int \<Rightarrow> int option" where
  "field2 s hi =
     (if (length s = 1 \<or> length s = 2) \<and> list_all isdigit s \<and> int_of_digits s \<le> hi
      then Some (int_of_digits s) else None)"

definition strptime_timestamp :: "string \<Rightarrow> error + int" where
  "strptime_timestamp s =
     (case cut (CHR '':'') s of None \<Rightarrow> Inl ValueError
      | Some (h, r1) \<Rightarrow>
     (case cut (CHR '':'') r1 of None \<Rightarrow> Inl ValueError
      | Some (mi, r2) \<Rightarrow>
     (case cut (CHR '','') r2 of None \<Rightarrow> Inl ValueError
      | Some (sec, f) \<Rightarrow>
     (case (field2 h 23, field2 mi 59, field2 sec 59) of
        (Some H, Some M, Some S) \<Rightarrow>
          if 1 \<le> length f \<and> length f \<le> 6 \<and> list_all isdigit f
          then Inr (((H * 60 + M) * 60 + S) * 1000000
                    + int_of_digits (f @ replicate (6 - length f) (CHR ''0'')))
          else Inl ValueError
      | _ \<Rightarrow> Inl ValueError))))"

subsection \<open>split_dialogs\<close>

definition quoted :: "string \<Rightarrow> string" where
  "quoted s = [DQ] @ s @ [DQ]"

definition an8 :: string where
  \<comment> \<open>the literal \<open>'{\\an8}'\<close>\<close>
  "an8 = ''{'' @ [BSL] @ ''an8}''"

definition apply_style :: "string \<Rightarrow> string option \<Rightarrow> int option \<Rightarrow> bool \<Rightarrow> string" where
  \<comment> \<open>lines 160 to 169 of \<open>_split_dialogs\<close>: \<open>if size\<close> holds for an integer other than 0,
      \<open>if color\<close> for a non-empty string\<close>
  "apply_style text color size' top' =
     (let text = rstrip text;
          text = (case size' of
                    Some n \<Rightarrow> if n \<noteq> 0
                      then ''<font face='' @ quoted ''Gandhi Sans'' @ '' size='' @ quoted (str_int n)
                           @ ''>'' @ text @ ''</font>''
                      else text
                  | None \<Rightarrow> text);
          text = (case color of
                    Some c \<Rightarrow> if c \<noteq> []
                      then ''<font color='' @ quoted c @ ''>'' @ text @ ''</font>''
                      else text
                  | None \<Rightarrow> text)
      in if top' then an8 @ text else text)"

definition split_dialog ::
  "string option \<Rightarrow> int option \<Rightarrow> bool \<Rightarrow> string \<Rightarrow> merger \<times> subtitle
     \<Rightarrow> error option \<times> (merger \<times> subtitle)" where
  \<comment> \<open>the body of the loop of \<open>_split_dialogs\<close>. An exception in the first \<open>try\<close> skips
      the block. The handler of the second \<open>try\<close> evaluates \<open>self.logger\<close>, an attribute
      that no Merger has, so an exception there leaves the method as AttributeError.\<close>
  "split_dialog color size' top' dialog0 st =
     (let dialog = (if startswith dialog0 [CR, NL] then replace_first [CR, NL] [] dialog0
                    else dialog0);
          dialog = (if startswith dialog [NL] then drop 1 dialog else dialog)
      in if dialog = [] \<or> dialog = [NL] \<or> lstrip (rstrip dialog) = [] then (None, st)
         else
           let dialog = (if startswith dialog [CR, NL] then drop 2 dialog else dialog)
           in (case index (split_max NL 2 dialog) 1 of
                 Inl e \<Rightarrow> (None, st)
               | Inr time \<Rightarrow>
                   let timestamp = strip (split_first ''-->'' time)
                   in (case strptime_timestamp timestamp of
                         Inl e \<Rightarrow> (Some AttributeError, st)
                       | Inr timestamp \<Rightarrow>
                        (case index (split_max NL 1 dialog) 1 of
                           Inl e \<Rightarrow> (Some AttributeError, st)
                         | Inr text_and_time \<Rightarrow>
                             let texts = drop 1 (split_all NL text_and_time);
                                 text = concat (map (\<lambda>t. t @ [NL]) texts)
                             in if text = [] \<or> text = [NL] then (None, st)
                                else
                                  let text = apply_style text color size' top';
                                      text_and_time = time @ [NL] @ text @ [NL]
                                  in (case sub_dialogs (snd st) timestamp of
                                        None \<Rightarrow>
                                          (None,
                                           ((fst st)\<lparr>timestamps := timestamps (fst st) @ [timestamp]\<rparr>,
                                            (snd st)\<lparr>sub_dialogs :=
                                               (sub_dialogs (snd st))(timestamp \<mapsto> text_and_time)\<rparr>))
                                      | Some prev \<Rightarrow>
                                         (case index (split_max NL 2 prev) 2 of
                                            Inl e \<Rightarrow> (Some AttributeError, st)
                                          | Inr rest \<Rightarrow>
                                              let prev_text = strip rest;
                                                  text_and_time =
                                                    time @ [NL] @ prev_text @ [NL] @ text @ [NL]
                                              in (None,
                                                  ((fst st)\<lparr>timestamps :=
                                                      timestamps (fst st) @ [timestamp]\<rparr>,
                                                   (snd st)\<lparr>sub_dialogs :=
                                                      (sub_dialogs (snd st))
                                                        (timestamp \<mapsto> text_and_time)\<rparr>))))))))"

definition split_dialogs ::
  "merger \<Rightarrow> string list \<Rightarrow> subtitle \<Rightarrow> string option \<Rightarrow> int option \<Rightarrow> bool
     \<Rightarrow> error option \<times> (merger \<times> subtitle)" where
  "split_dialogs slf dialogs subtitle color size' top' =
     for_each (split_dialog color size' top') dialogs (slf, subtitle)"

subsection \<open>add\<close>

fun re_split :: "string \<Rightarrow> string \<Rightarrow> string list" where
  \<comment> \<open>\<open>re.split('\r\n\r|\n\n', data)\<close>; the first argument is the piece read so far\<close>
  "re_split cur [] = [cur]"
| "re_split cur (c # cs) =
     (if startswith (c # cs) [CR, NL, CR] then cur # re_split [] (drop 2 cs)
      else if startswith (c # cs) [NL, NL] then cur # re_split [] (drop 1 cs)
      else re_split (cur @ [c]) cs)"

definition add ::
  "(string \<Rightarrow> bytes \<Rightarrow> error + string) \<Rightarrow> world \<Rightarrow> string \<Rightarrow> string kwarg
     \<Rightarrow> string option kwarg \<Rightarrow> int option kwarg \<Rightarrow> bool kwarg \<Rightarrow> error option \<times> world" where
  \<comment> \<open>\<open>decode c b\<close> is \<open>b.decode(c)\<close>. The defaults are those of the signature:
      \<open>codec="utf-8", color=COLORS['WHITE'], size=None, top=False\<close>.\<close>
  "add decode w subtitle_address codec_arg color_arg size_arg top_arg =
     (let codec = default ''utf-8'' codec_arg;
          color = default (Some COLORS_WHITE) color_arg;
          size' = default None size_arg;
          top' = default False top_arg;
          subtitle = \<lparr>sub_address = subtitle_address, sub_codec = codec, sub_color = color,
                      sub_size = size', sub_dialogs = Map.empty, sub_data = [],
                      sub_raw_dialogs = []\<rparr>
      in (case files w subtitle_address of
            None \<Rightarrow> (Some OSError, w)
          | Some content \<Rightarrow>
             (case decode codec content of
                Inl e \<Rightarrow> (Some e, w)
              | Inr data \<Rightarrow>
                  let dialogs = re_split [] data;
                      subtitle = subtitle\<lparr>sub_data := data, sub_raw_dialogs := dialogs\<rparr>
                  in (case split_dialogs (self w) dialogs subtitle color size' top' of
                        (Some e, (slf, subtitle)) \<Rightarrow> (Some e, w\<lparr>self := slf\<rparr>)
                      | (None, (slf, subtitle)) \<Rightarrow>
                          (None, w\<lparr>self := slf\<lparr>subtitles := subtitles slf @ [subtitle]\<rparr>\<rparr>)))))"

subsection \<open>set_subtitle_style\<close>

fun find_first :: "string \<Rightarrow> string \<Rightarrow> (string \<times> string) option" where
  \<comment> \<open>the text before and the text after the first occurrence of a pattern\<close>
  "find_first pat [] = (if pat = [] then Some ([], []) else None)"
| "find_first pat (c # cs) =
     (if startswith (c # cs) pat then Some ([], drop (length pat) (c # cs))
      else map_option (\<lambda>(a, b). (c # a, b)) (find_first pat cs))"

definition font_match :: "string \<Rightarrow> (string \<times> string) option" where
  \<comment> \<open>a match of \<open><font[^>]*>(.*?)</font>\<close> at the start of the string: group 1 and the
      text after the match. \<open>[^>]*\<close> runs to the first \<open>>\<close>; \<open>.\<close> matches no line
      feed, so the lazy group runs to the first \<open></font>\<close> if no line feed comes before it\<close>
  "font_match s =
     (if startswith s ''<font'' then
        (case cut (CHR ''>'') (drop 5 s) of
           None \<Rightarrow> None
         | Some (attrs, body) \<Rightarrow>
            (case find_first ''</font>'' body of
               None \<Rightarrow> None
             | Some (inner, rest) \<Rightarrow> if NL \<in> set inner then None else Some (inner, rest)))
      else None)"

function strip_font :: "string \<Rightarrow> string" where
  \<comment> \<open>\<open>re.sub(r'<font[^>]*>(.*?)</font>', r'\1', s)\<close>: the matches are taken from left
      to right and do not overlap\<close>
  "strip_font [] = []"
| "strip_font (c # cs) =
     (case font_match (c # cs) of
        Some (inner, rest) \<Rightarrow> inner @ strip_font rest
      | None \<Rightarrow> c # strip_font cs)"
  by pat_completeness auto
termination
proof (relation "measure length")
  show "wf (measure length)" by simp
next
  fix c :: char and cs x2 inner rest
  assume m: "font_match (c # cs) = Some x2" and x2: "(inner, rest) = x2"
  have ff: "length b \<le> length s" if "find_first pat s = Some (a, b)" for pat s a b
    using that by (induction s arbitrary: a b) (auto split: if_splits)
  have ct: "length b < length s" if "cut sep s = Some (a, b)" for sep s a b
  proof -
    from that have "sep \<in> set s" and b: "b = tl (dropWhile (\<lambda>c. c \<noteq> sep) s)"
      by (auto simp: cut_def split: if_splits)
    then have "dropWhile (\<lambda>c. c \<noteq> sep) s \<noteq> []" by auto
    then have "length (tl (dropWhile (\<lambda>c. c \<noteq> sep) s)) < length (dropWhile (\<lambda>c. c \<noteq> sep) s)"
      by (cases "dropWhile (\<lambda>c. c \<noteq> sep) s") auto
    also have "\<dots> \<le> length s" by (rule length_dropWhile_le)
    finally show ?thesis using b by simp
  qed
  from m x2 obtain attrs body where "cut (CHR ''>'') (drop 5 (c # cs)) = Some (attrs, body)"
    and "find_first ''</font>'' body = Some (inner, rest)"
    by (auto simp: font_match_def split: if_splits option.splits)
  from ct [OF this(1)] ff [OF this(2)] have "length rest < length (c # cs)" by simp
  then show "(rest, c # cs) \<in> measure length" by simp
next
  fix c :: char and cs
  show "(cs, c # cs) \<in> measure length" by simp
qed

definition join_space :: "string list \<Rightarrow> string" where
  \<comment> \<open>\<open>' '.join(xs)\<close>\<close>
  "join_space xs = (case xs of [] \<Rightarrow> [] | x # r \<Rightarrow> x @ concat (map (\<lambda>y. '' '' @ y) r))"

definition set_subtitle_style :: "string \<Rightarrow> string option \<Rightarrow> int option \<Rightarrow> string" where
  "set_subtitle_style subtitle color size' =
     (let subtitle = strip_font subtitle;
          color = normalize_color color;
          style_attrs = (case color of
                           Some c \<Rightarrow> if c \<noteq> [] then [''color='' @ quoted c] else []
                         | None \<Rightarrow> []);
          style_attrs = (case size' of
                           Some n \<Rightarrow> if n \<noteq> 0 then style_attrs @ [''size='' @ quoted (str_int n)]
                                     else style_attrs
                         | None \<Rightarrow> style_attrs);
          style = join_space style_attrs
      in if style \<noteq> [] then ''<font '' @ style @ ''>'' @ subtitle @ ''</font>'' else subtitle)"

subsection \<open>merge\<close>

definition encode :: "(string \<Rightarrow> string \<Rightarrow> error + bytes) \<Rightarrow> merger \<Rightarrow> string \<Rightarrow> bytes" where
  \<comment> \<open>\<open>_encode\<close>; \<open>enc c s\<close> is \<open>bytes(s, encoding=c)\<close>, the same as \<open>s.encode(c)\<close>\<close>
  "encode enc slf text =
     (case enc (output_encoding slf) text of
        Inr b \<Rightarrow> b
      | Inl e \<Rightarrow> ascii ''An error has been occured in encoing by specifed `output_encoding`'')"

definition get_output_path :: "merger \<Rightarrow> string" where
  "get_output_path slf =
     (if endswith (output_path slf) ''/'' then output_path slf @ output_name slf
      else output_path slf @ ''/'' @ output_name slf)"

definition byteOfCount :: "(string \<Rightarrow> string \<Rightarrow> error + bytes) \<Rightarrow> string \<Rightarrow> nat \<Rightarrow> error + bytes" where
  \<comment> \<open>the value given to \<open>byteOfCount\<close> in \<open>merge\<close>, lines 239 to 246\<close>
  "byteOfCount enc codec count =
     (if count = 1 then
        (case enc codec (str_nat count) of
           Inl e \<Rightarrow> Inl e
         | Inr b \<Rightarrow> insert_bom b codec)
      else
        (case enc codec [NL] of
           Inl e \<Rightarrow> Inl e
         | Inr nl \<Rightarrow>
            (case enc codec (str_nat count) of
               Inl e \<Rightarrow> Inl e
             | Inr b \<Rightarrow> Inr (nl @ b))))"

definition merge_sub ::
  "(string \<Rightarrow> string \<Rightarrow> error + bytes) \<Rightarrow> int \<Rightarrow> nat \<Rightarrow> merger \<times> nat
     \<Rightarrow> error option \<times> (merger \<times> nat)" where
  \<comment> \<open>the body of the inner loop of \<open>merge\<close> for the source at position \<open>i\<close> of
      \<open>self.subtitles\<close>; the state is the session and \<open>count\<close>\<close>
  "merge_sub enc t i st =
     (let slf = fst st; count = snd st; sub = subtitles slf ! i
      in (case sub_dialogs sub t of
            None \<Rightarrow> (None, st)
          | Some d \<Rightarrow>
              let line = encode enc slf (replace_all [NL, NL] [] d)
              in (case byteOfCount enc (output_encoding slf) count of
                    Inl e \<Rightarrow> (Some e, st)
                  | Inr boc \<Rightarrow>
                      let slf = (if \<not> endswith d [NL]
                                 then slf\<lparr>subtitles := (subtitles slf)
                                        [i := sub\<lparr>sub_dialogs := (sub_dialogs sub)(t \<mapsto> d @ [NL])\<rparr>]\<rparr>
                                 else slf)
                      in (case enc (output_encoding slf) [NL] of
                            Inl e \<Rightarrow> (Some e, (slf, count))
                          | Inr nl \<Rightarrow>
                              (None, (slf\<lparr>lines := lines slf @ [boc @ nl @ line]\<rparr>, count + 1))))))"

definition merge_loops ::
  "(string \<Rightarrow> string \<Rightarrow> error + bytes) \<Rightarrow> merger \<Rightarrow> error option \<times> (merger \<times> nat)" where
  \<comment> \<open>the two loops of \<open>merge\<close>, lines 234 to 252, started with \<open>count = 1\<close>\<close>
  "merge_loops enc slf =
     for_each (\<lambda>t st. for_each (merge_sub enc t) [0..<length (subtitles (fst st))] st)
       (timestamps slf) (slf, 1)"

definition trim_last :: "bytes list \<Rightarrow> bytes list" where
  \<comment> \<open>lines 253 to 256 of \<open>merge\<close>, for a non-empty \<open>self.lines\<close>\<close>
  "trim_last ls =
     (let ls = (if endswith (last ls) [0x00, 0x0A, 0x00]
                then butlast ls @ [take (length (last ls) - 3) (last ls) @ [0x00]] else ls)
      in if endswith (last ls) [0x0A] then butlast ls @ [take (length (last ls) - 1) (last ls)]
         else ls)"

definition merge ::
  "(string \<Rightarrow> string \<Rightarrow> error + bytes) \<Rightarrow> world \<Rightarrow> (error + string option) \<times> world" where
  \<comment> \<open>\<open>merge\<close> has no \<open>return\<close> statement: a call that does not raise evaluates to
      Python's \<open>None\<close>, here \<open>Inr None\<close>. What it prints is not modelled.\<close>
  "merge enc w =
     (let slf = (self w)\<lparr>lines := []\<rparr>;
          slf = slf\<lparr>timestamps := sort (remdups (timestamps slf))\<rparr>
      in (case merge_loops enc slf of
            (Some e, (slf, count)) \<Rightarrow> (Inl e, w\<lparr>self := slf\<rparr>)
          | (None, (slf, count)) \<Rightarrow>
              if lines slf = [] then (Inl IndexError, w\<lparr>self := slf\<rparr>)
              else
                let slf = slf\<lparr>lines := trim_last (lines slf)\<rparr>
                in if writable w (get_output_path slf)
                   then (Inr None,
                         w\<lparr>self := slf,
                           files := (files w)(get_output_path slf \<mapsto> concat (lines slf))\<rparr>)
                   else (Inl OSError, w\<lparr>self := slf\<rparr>)))"

section \<open>What merge emits, stated on the session\<close>

text \<open>
  The functions of this section are not in main.py: they describe the list of blocks
  that the two loops of \<open>merge\<close> build, and the theorems below relate them to \<open>merge\<close>.
\<close>

definition block :: "(string \<Rightarrow> string \<Rightarrow> error + bytes) \<Rightarrow> string \<Rightarrow> nat \<Rightarrow> string \<Rightarrow> error + bytes" where
  \<comment> \<open>the bytes of the block with the sequence number \<open>n\<close> for the stored entry \<open>d\<close> (a
      timecode line and a text), written out from the encoder and \<open>_insert_bom\<close>: the digits
      of \<open>n\<close> (behind the byte-order mark for \<open>n = 1\<close>, behind a line feed otherwise), a
      line feed, and the entry without its empty lines, encoded; where the entry cannot
      be encoded, the fixed message of \<open>_encode\<close> stands in its place\<close>
  "block enc codec n d =
     (case enc codec (str_nat n) of
        Inl e \<Rightarrow> Inl e
      | Inr digits \<Rightarrow>
         (case enc codec [NL] of
            Inl e \<Rightarrow> Inl e
          | Inr nl \<Rightarrow>
             (case (if n = 1 then insert_bom digits codec else Inr (nl @ digits)) of
                Inl e \<Rightarrow> Inl e
              | Inr number \<Rightarrow>
                  Inr (number @ nl @
                       (case enc codec (replace_all [NL, NL] [] d) of
                          Inr b \<Rightarrow> b
                        | Inl e \<Rightarrow>
                            ascii ''An error has been occured in encoing by specifed `output_encoding`'')))))"

definition entries_at :: "merger \<Rightarrow> int \<Rightarrow> string list" where
  \<comment> \<open>the stored texts of the sources that have an entry at start time \<open>t\<close>, in the
      order in which the sources were added\<close>
  "entries_at slf t = List.map_filter (\<lambda>sub. sub_dialogs sub t) (subtitles slf)"

definition entries_among :: "merger \<Rightarrow> int \<Rightarrow> nat list \<Rightarrow> string list" where
  \<comment> \<open>the same for the sources at the positions \<open>js\<close> of \<open>self.subtitles\<close>\<close>
  "entries_among slf t js = List.map_filter (\<lambda>i. sub_dialogs (subtitles slf ! i) t) js"

definition plan :: "merger \<Rightarrow> (int \<times> string) list" where
  \<comment> \<open>every entry of every source, by ascending start time and then by source\<close>
  "plan slf =
     concat (map (\<lambda>t. map (Pair t) (entries_at slf t)) (sort (remdups (timestamps slf))))"

section \<open>Example sessions\<close>

definition cue :: "string \<Rightarrow> string \<Rightarrow> string \<Rightarrow> string" where
  \<comment> \<open>the text of one cue: number, timecode line, body\<close>
  "cue n t b = n @ [NL] @ t @ [NL] @ b @ [NL]"

definition file_en :: string where
  "file_en = cue ''1'' ''00:00:05,000 --> 00:00:06,000'' ''Hi''"

definition file_fr :: string where
  "file_fr = cue ''1'' ''00:00:05,000 --> 00:00:07,000'' ''Salut''"

definition file_twice :: string where
  \<comment> \<open>two cues with the same start time\<close>
  "file_twice = cue ''1'' ''00:00:05,000 --> 00:00:06,000'' ''Hi'' @ [NL]
                @ cue ''2'' ''00:00:05,000 --> 00:00:07,000'' ''Yo''"

definition file_bad :: string where
  \<comment> \<open>a well-formed cue and a block with no timecode line\<close>
  "file_bad = cue ''1'' ''00:00:05,000 --> 00:00:06,000'' ''Hi'' @ [NL]
              @ ''2'' @ [NL] @ ''Hello'' @ [NL]"

definition file_blank :: string where
  \<comment> \<open>no cue at all\<close>
  "file_blank = [NL, NL, CHR '' '', NL]"

definition world0 :: "string \<Rightarrow> world" where
  \<comment> \<open>a new session \<open>Merger(output_name='out.srt', output_encoding=encoding)\<close> and a
      directory with five files\<close>
  "world0 encoding =
     \<lparr>self = init Omitted (Given ''out.srt'') (Given encoding),
      files = [''en.srt'' \<mapsto> ascii file_en, ''fr.srt'' \<mapsto> ascii file_fr,
               ''twice.srt'' \<mapsto> ascii file_twice, ''bad.srt'' \<mapsto> ascii file_bad,
               ''blank.srt'' \<mapsto> ascii file_blank],
      writable = (\<lambda>p. True)\<rparr>"

definition added :: "world \<Rightarrow> string \<Rightarrow> world" where
  \<comment> \<open>the state after \<open>m.add(address)\<close>, every keyword argument omitted\<close>
  "added w address = snd (add py_decode w address Omitted Omitted Omitted Omitted)"

definition session_en_fr :: world where
  \<comment> \<open>two sources, each with one cue at the start time 00:00:05,000\<close>
  "session_en_fr = added (added (world0 ''utf-8'') ''en.srt'') ''fr.srt''"

definition file_early :: string where
  "file_early = cue ''1'' ''00:00:01,000 --> 00:00:02,000'' ''Hello''"

definition file_two_lines :: string where
  \<comment> \<open>two cues with the same start time, the first with a body of two lines\<close>
  "file_two_lines = cue ''1'' ''00:00:05,000 --> 00:00:06,000'' (''Hi'' @ [NL] @ ''there'') @ [NL]
                    @ cue ''2'' ''00:00:05,000 --> 00:00:07,000'' ''Yo''"

definition file_accent :: string where
  \<comment> \<open>one cue whose body has a letter outside ASCII\<close>
  "file_accent = cue ''1'' ''00:00:05,000 --> 00:00:06,000'' [CHR ''H'', CHR 0xE9]"

definition world1 :: "string \<Rightarrow> world" where
  \<comment> \<open>the same session in a directory with three more files\<close>
  "world1 encoding =
     (world0 encoding)\<lparr>files := (files (world0 encoding))
        (''early.srt'' \<mapsto> ascii file_early, ''two_lines.srt'' \<mapsto> ascii file_two_lines,
         ''accent.srt'' \<mapsto> ascii file_accent)\<rparr>"

definition session_three :: world where
  \<comment> \<open>three sources: two with a cue at 00:00:05,000, then one with a cue at 00:00:01,000\<close>
  "session_three = added (added (added (world1 ''utf-8'') ''en.srt'') ''fr.srt'') ''early.srt''"

definition session_accent :: world where
  \<comment> \<open>\<open>Merger(output_name='out.srt', output_encoding='ascii')\<close> after
      \<open>add('accent.srt', codec='latin-1')\<close>\<close>
  "session_accent =
     snd (add py_decode (world1 ''ascii'') ''accent.srt'' (Given ''latin-1'') Omitted Omitted Omitted)"

definition white_open :: string where
  "white_open = ''<font color='' @ quoted ''#FFFFFF'' @ ''>''"

section \<open>Properties\<close>

subsection \<open>Loops\<close>

lemma for_each_preserves:
  assumes step: "\<And>x s e s'. body x s = (e, s') \<Longrightarrow> I s \<Longrightarrow> I s'"
    and init: "I s"
    and run: "for_each body xs s = (e, s')"
  shows "I s'"
  using init run
proof (induction xs arbitrary: s)
  case Nil
  then show ?case by simp
next
  case (Cons x xs)
  obtain e1 s1 where b: "body x s = (e1, s1)" by (cases "body x s")
  have i1: "I s1" using step [OF b Cons.prems(1)] .
  show ?case
  proof (cases e1)
    case None
    with b Cons.prems(2) have "for_each body xs s1 = (e, s')" by simp
    from Cons.IH [OF i1 this] show ?thesis .
  next
    case (Some err)
    with b Cons.prems(2) have "s' = s1" by simp
    with i1 show ?thesis by simp
  qed
qed

subsection \<open>What the loops of merge leave unchanged\<close>

lemma merge_sub_frame:
  assumes "merge_sub enc t i st = (e, st')"
  shows "output_path (fst st') = output_path (fst st) \<and> output_name (fst st') = output_name (fst st)
    \<and> output_encoding (fst st') = output_encoding (fst st)
    \<and> length (subtitles (fst st')) = length (subtitles (fst st))"
  using assms
  by (auto simp: merge_sub_def Let_def split: option.splits sum.splits if_splits)

lemma merge_loops_frame:
  assumes "merge_loops enc slf = (e, slf', count)"
  shows "output_path slf' = output_path slf \<and> output_name slf' = output_name slf
    \<and> output_encoding slf' = output_encoding slf
    \<and> length (subtitles slf') = length (subtitles slf)"
proof -
  let ?I = "\<lambda>st :: merger \<times> nat. output_path (fst st) = output_path slf
      \<and> output_name (fst st) = output_name slf \<and> output_encoding (fst st) = output_encoding slf
      \<and> length (subtitles (fst st)) = length (subtitles slf)"
  have inner: "?I s1" if "for_each (merge_sub enc t) is s = (e1, s1)" and "?I s" for t "is" s e1 s1
  proof (rule for_each_preserves [where I = ?I, OF _ that(2) that(1)])
    fix x s2 e2 s3
    assume "merge_sub enc t x s2 = (e2, s3)" and "?I s2"
    then show "?I s3" using merge_sub_frame [of enc t x s2 e2 s3] by simp
  qed
  have "?I (slf', count)"
  proof (rule for_each_preserves [where I = ?I and s = "(slf, 1)"])
    show "?I (slf, 1)" by simp
    show "for_each (\<lambda>t st. for_each (merge_sub enc t) [0..<length (subtitles (fst st))] st)
            (timestamps slf) (slf, 1) = (e, slf', count)"
      using assms by (simp add: merge_loops_def)
  next
    fix t s e1 s1
    assume "for_each (merge_sub enc t) [0..<length (subtitles (fst s))] s = (e1, s1)" and "?I s"
    then show "?I s1" by (rule inner)
  qed
  then show ?thesis by simp
qed

lemma merge_cases:
  assumes "merge_loops enc ((self w)\<lparr>lines := [], timestamps := sort (remdups (timestamps (self w)))\<rparr>) = (e, slf, count)"
  shows "merge enc w =
     (case e of
        Some err \<Rightarrow> (Inl err, w\<lparr>self := slf\<rparr>)
      | None \<Rightarrow>
          if lines slf = [] then (Inl IndexError, w\<lparr>self := slf\<rparr>)
          else if writable w (get_output_path (slf\<lparr>lines := trim_last (lines slf)\<rparr>))
               then (Inr None,
                     w\<lparr>self := slf\<lparr>lines := trim_last (lines slf)\<rparr>,
                       files := (files w)(get_output_path (slf\<lparr>lines := trim_last (lines slf)\<rparr>)
                          \<mapsto> concat (trim_last (lines slf)))\<rparr>)
               else (Inl OSError, w\<lparr>self := slf\<lparr>lines := trim_last (lines slf)\<rparr>\<rparr>))"
  using assms by (simp add: merge_def Let_def split: option.splits)

subsection \<open>merge on an empty session\<close>

text \<open>
  Claim C7, as the code has it. When no cue was ever indexed, \<open>self.timestamps\<close> is
  empty, the loops of \<open>merge\<close> append nothing, and \<open>self.lines[-1]\<close> raises IndexError
  before the output file is opened: the call fails and every file is as it was.
\<close>

theorem merge_empty_session_fails:
  "timestamps (self w) = [] \<Longrightarrow>
     fst (merge enc w) = Inl IndexError \<and> files (snd (merge enc w)) = files w"
  by (simp add: merge_def merge_loops_def Let_def)

text \<open>
  Witness for C7: a session to which one source with no cue was added.
\<close>

theorem merge_empty_session_fails_witness:
  "timestamps (self (added (world0 ''utf-8'') ''blank.srt'')) = []
   \<and> length (subtitles (self (added (world0 ''utf-8'') ''blank.srt''))) = 1
   \<and> fst (merge py_encode (added (world0 ''utf-8'') ''blank.srt'')) = Inl IndexError
   \<and> files (snd (merge py_encode (added (world0 ''utf-8'') ''blank.srt'')))
       = files (added (world0 ''utf-8'') ''blank.srt'')"
proof -
  have h: "timestamps (self (added (world0 ''utf-8'') ''blank.srt'')) = []" by code_simp
  have l: "length (subtitles (self (added (world0 ''utf-8'') ''blank.srt''))) = 1" by code_simp
  from merge_empty_session_fails [OF h, of py_encode] h l show ?thesis by simp
qed

text \<open>
  Counterexample for C7 as stated: on the new session the failure is not
  EmptySessionError, an error that main.py does not define (it is IndexError).
\<close>

theorem merge_empty_session_IndexError:
  "fst (merge py_encode (world0 ''utf-8'')) \<noteq> Inl EmptySessionError"
  by code_simp

subsection \<open>The output path\<close>

text \<open>
  Claim C8, as the code has it. A call of \<open>merge\<close> that does not raise evaluates to
  \<open>None\<close>; the file it has written is the one at \<open>get_output_path()\<close>, the output
  directory joined with the output name, and it holds the blocks of \<open>self.lines\<close>.
\<close>

theorem merge_writes_output_path:
  assumes "fst (merge enc w) = Inr r"
  shows "r = None \<and> writable w (get_output_path (self w))
    \<and> files (snd (merge enc w))
        = (files w)(get_output_path (self w) \<mapsto> concat (lines (self (snd (merge enc w)))))"
proof -
  obtain e slf count where
    loop: "merge_loops enc ((self w)\<lparr>lines := [], timestamps := sort (remdups (timestamps (self w)))\<rparr>)
             = (e, slf, count)"
    using prod_cases3 by blast
  from merge_loops_frame [OF loop]
  have p: "get_output_path (slf\<lparr>lines := trim_last (lines slf)\<rparr>) = get_output_path (self w)"
    by (simp add: get_output_path_def)
  note m = merge_cases [OF loop, unfolded p]
  show ?thesis
  proof (cases e)
    case (Some err)
    with assms m show ?thesis by simp
  next
    case None
    show ?thesis
    proof (cases "lines slf = []")
      case True
      with assms m None show ?thesis by simp
    next
      case False
      show ?thesis
      proof (cases "writable w (get_output_path (self w))")
        case True
        with assms m None False show ?thesis by auto
      next
        case f: False
        with assms m None False show ?thesis by simp
      qed
    qed
  qed
qed

text \<open>
  Witness for C8: a session with one source; the file is written at \<open>./out.srt\<close>.
\<close>

theorem merge_writes_output_path_witness:
  "fst (merge py_encode (added (world0 ''utf-8'') ''en.srt'')) = Inr None
   \<and> get_output_path (self (added (world0 ''utf-8'') ''en.srt'')) = ''./out.srt''
   \<and> files (snd (merge py_encode (added (world0 ''utf-8'') ''en.srt''))) ''./out.srt''
       = Some (concat (lines (self (snd (merge py_encode (added (world0 ''utf-8'') ''en.srt''))))))"
proof -
  have h: "fst (merge py_encode (added (world0 ''utf-8'') ''en.srt'')) = Inr None" by code_simp
  have g: "get_output_path (self (added (world0 ''utf-8'') ''en.srt'')) = ''./out.srt''" by code_simp
  from merge_writes_output_path [OF h] h g show ?thesis by simp
qed

text \<open>
  Counterexample for C8 as stated: the value of the successful call is not the path.
\<close>

theorem merge_returns_None:
  "fst (merge py_encode (added (world0 ''utf-8'') ''en.srt''))
     \<noteq> Inr (Some (get_output_path (self (added (world0 ''utf-8'') ''en.srt''))))"
  by code_simp

subsection \<open>The byte-order mark\<close>

text \<open>
  Claim C6 fails for UTF-16 big-endian: \<open>_insert_bom\<close> prepends \<open>codecs.BOM_UTF32_BE\<close>,
  the four bytes 00 00 FE FF, where the mark of UTF-16-BE is FE FF. A session with the
  output encoding \<open>utf-16-be\<close> writes a file that starts with the UTF-32 mark, followed
  by the digit 1 in UTF-16-BE.
\<close>

theorem insert_bom_utf16be_marks_utf32:
  "insert_bom content ''utf-16-be'' = Inr (BOM_UTF32_BE @ content) \<and>
   BOM_UTF32_BE \<noteq> BOM_UTF16_BE \<and>
   map_option (take 6)
     (files (snd (merge py_encode (added (world0 ''utf-16-be'') ''en.srt''))) ''./out.srt'')
     = Some [0x00, 0x00, 0xFE, 0xFF, 0x00, 0x31]"
proof -
  have "insert_bom content ''utf-16-be'' = Inr (BOM_UTF32_BE @ content)"
    by (simp add: insert_bom_def startswith_def upper_def upper_char_def char_of_def bit_0)
  moreover have "BOM_UTF32_BE \<noteq> BOM_UTF16_BE"
    by (simp add: BOM_UTF32_BE_def BOM_UTF16_BE_def)
  moreover have "map_option (take 6)
     (files (snd (merge py_encode (added (world0 ''utf-16-be'') ''en.srt''))) ''./out.srt'')
     = Some [0x00, 0x00, 0xFE, 0xFF, 0x00, 0x31]"
    by code_simp
  ultimately show ?thesis by simp
qed

subsection \<open>Malformed blocks\<close>

text \<open>
  Claim C3 fails for a block whose second line is not a timecode: \<open>strptime\<close> raises,
  the handler evaluates \<open>self.logger\<close>, which no Merger has, and \<open>add\<close> ends with
  AttributeError. The file holds one well-formed cue and a block with no timecode line.
\<close>

theorem add_unparsable_time_raises:
  "fst (add py_decode (world0 ''utf-8'') ''bad.srt'' Omitted Omitted Omitted Omitted)
     = Some AttributeError"
  by code_simp

subsection \<open>Styling\<close>

text \<open>
  Claim C4 fails: \<open>add\<close> writes the colour token as it was given into the font tag.
  For the token \<open>yellow\<close> the stored text has \<open>color="yellow"\<close>, and the normalised
  value is \<open>#FFEB00\<close>.
\<close>

theorem add_stores_raw_color:
  "map (\<lambda>sub. sub_dialogs sub 5000000)
     (subtitles (self (snd (add py_decode (world0 ''utf-8'') ''en.srt'' Omitted
                              (Given (Some ''yellow'')) Omitted Omitted))))
   = [Some (''00:00:05,000 --> 00:00:06,000'' @ [NL]
            @ ''<font color='' @ quoted ''yellow'' @ ''>Hi</font>'' @ [NL])]
   \<and> normalize_color (Some ''yellow'') = Some ''#FFEB00''"
  by code_simp

text \<open>
  Claim C5 fails: styling a styled text wraps it a second time. \<open>_set_subtitle_style\<close>
  strips a font tag only when no line feed stands between the tag and its end, so a body
  of two lines is wrapped twice; the styling of \<open>_split_dialogs\<close> strips nothing.
\<close>

theorem styling_twice_wraps_twice:
  "set_subtitle_style (set_subtitle_style (''a'' @ [NL] @ ''b'') (Some ''red'') None) (Some ''red'') None
     = ''<font color='' @ quoted ''#FF003B'' @ ''><font color='' @ quoted ''#FF003B'' @ ''>a''
       @ [NL] @ ''b</font></font>''
   \<and> set_subtitle_style (''a'' @ [NL] @ ''b'') (Some ''red'') None
     = ''<font color='' @ quoted ''#FF003B'' @ ''>a'' @ [NL] @ ''b</font>''
   \<and> apply_style (apply_style ''Hi'' (Some ''red'') None False) (Some ''red'') None False
     = ''<font color='' @ quoted ''red'' @ ''><font color='' @ quoted ''red'' @ ''>Hi</font></font>''"
  by code_simp

subsection \<open>Cues of one source with the same start time\<close>

text \<open>
  Claim C9 fails: for two cues of one file with the same start time, the stored entry
  holds the later cue's timecode line, an empty line and the later cue's text. The text
  \<open>Hi\<close> of the earlier cue is lost: \<open>split('\n', 2)[2]\<close> is what follows the first line
  of the earlier text.
\<close>

theorem add_same_time_loses_earlier_text:
  "map (\<lambda>sub. sub_dialogs sub 5000000) (subtitles (self (added (world0 ''utf-8'') ''twice.srt'')))
   = [Some (''00:00:05,000 --> 00:00:07,000'' @ [NL] @ [NL] @ white_open @ ''Yo</font>'' @ [NL])]"
  by code_simp

subsection \<open>The blocks that merge emits\<close>

lemma entries_among_all: "entries_among slf t [0..<length (subtitles slf)] = entries_at slf t"
proof -
  have "List.map_filter (\<lambda>i. sub_dialogs (subtitles slf ! i) t) [0..<length (subtitles slf)]
      = List.map_filter (\<lambda>sub. sub_dialogs sub t) (map ((!) (subtitles slf)) [0..<length (subtitles slf)])"
    by (simp add: List.map_filter_def filter_map comp_def)
  then show ?thesis by (simp add: entries_among_def entries_at_def map_nth)
qed

lemma entries_among_cong:
  assumes "\<And>j. j \<in> set js \<Longrightarrow> sub_dialogs (subtitles slf' ! j) t = sub_dialogs (subtitles slf ! j) t"
  shows "entries_among slf' t js = entries_among slf t js"
  using assms
proof (induction js)
  case Nil
  then show ?case by (simp add: entries_among_def)
next
  case (Cons a js)
  then have "entries_among slf' t js = entries_among slf t js"
    and "sub_dialogs (subtitles slf' ! a) t = sub_dialogs (subtitles slf ! a) t" by simp_all
  then show ?case by (simp add: entries_among_def split: option.splits)
qed

lemma entries_among_append:
  "entries_among slf t (xs @ ys) = entries_among slf t xs @ entries_among slf t ys"
  by (simp add: entries_among_def List.map_filter_def)

lemma merge_sub_step:
  assumes run: "merge_sub enc t i (slf, c) = (None, (slf', c'))" and i: "i < length (subtitles slf)"
  shows "\<exists>bs. lines slf' = lines slf @ bs
      \<and> map Inr bs = map (\<lambda>(n, d). block enc (output_encoding slf) n d) (enumerate c (entries_among slf t [i]))
      \<and> c' = c + length bs"
    and "output_encoding slf' = output_encoding slf"
    and "length (subtitles slf') = length (subtitles slf)"
    and "\<And>j t'. j \<noteq> i \<or> t' \<noteq> t \<Longrightarrow>
           sub_dialogs (subtitles slf' ! j) t' = sub_dialogs (subtitles slf ! j) t'"
proof -
  show "\<exists>bs. lines slf' = lines slf @ bs
      \<and> map Inr bs = map (\<lambda>(n, d). block enc (output_encoding slf) n d) (enumerate c (entries_among slf t [i]))
      \<and> c' = c + length bs"
    using run
    by (auto simp: merge_sub_def Let_def block_def byteOfCount_def encode_def entries_among_def
        split: option.splits sum.splits if_splits)
  show "output_encoding slf' = output_encoding slf"
    using run by (auto simp: merge_sub_def Let_def split: option.splits sum.splits if_splits)
  show "length (subtitles slf') = length (subtitles slf)"
    using run by (auto simp: merge_sub_def Let_def split: option.splits sum.splits if_splits)
  show "sub_dialogs (subtitles slf' ! j) t' = sub_dialogs (subtitles slf ! j) t'"
    if "j \<noteq> i \<or> t' \<noteq> t" for j t'
    using run i that
    by (auto simp: merge_sub_def Let_def nth_list_update split: option.splits sum.splits if_splits)
qed

lemma merge_inner:
  assumes "for_each (merge_sub enc t) js (slf, c) = (None, (slf', c'))"
    and "distinct js" and "\<And>j. j \<in> set js \<Longrightarrow> j < length (subtitles slf)"
  shows "(\<exists>bs. lines slf' = lines slf @ bs
      \<and> map Inr bs = map (\<lambda>(n, d). block enc (output_encoding slf) n d) (enumerate c (entries_among slf t js))
      \<and> c' = c + length bs)
    \<and> output_encoding slf' = output_encoding slf
    \<and> length (subtitles slf') = length (subtitles slf)
    \<and> (\<forall>j t'. t' \<noteq> t \<or> j \<notin> set js \<longrightarrow>
           sub_dialogs (subtitles slf' ! j) t' = sub_dialogs (subtitles slf ! j) t')"
  using assms
proof (induction js arbitrary: slf c)
  case Nil
  then show ?case by (simp add: entries_among_def)
next
  case (Cons i js)
  obtain e1 slf1 c1 where step: "merge_sub enc t i (slf, c) = (e1, (slf1, c1))"
    using prod_cases3 by blast
  with Cons.prems(1) have e1: "e1 = None"
    by (cases e1) simp_all
  with step Cons.prems(1) have rest: "for_each (merge_sub enc t) js (slf1, c1) = (None, (slf', c'))"
    by simp
  have i: "i < length (subtitles slf)" using Cons.prems(3) by simp
  note s = merge_sub_step [OF step [unfolded e1] i]
  from s(1) obtain bs1 where bs1: "lines slf1 = lines slf @ bs1"
    "map Inr bs1 = map (\<lambda>(n, d). block enc (output_encoding slf) n d) (enumerate c (entries_among slf t [i]))"
    "c1 = c + length bs1" by blast
  have d: "distinct js" and ni: "i \<notin> set js" using Cons.prems(2) by simp_all
  have lt: "\<And>j. j \<in> set js \<Longrightarrow> j < length (subtitles slf1)"
    using Cons.prems(3) s(3) by simp
  note ih = Cons.IH [OF rest d lt]
  from ih obtain bs2 where bs2: "lines slf' = lines slf1 @ bs2"
    "map Inr bs2 = map (\<lambda>(n, d). block enc (output_encoding slf1) n d) (enumerate c1 (entries_among slf1 t js))"
    "c' = c1 + length bs2" by blast
  have same: "entries_among slf1 t js = entries_among slf t js"
    by (rule entries_among_cong) (metis ni s(4))
  have blk: "block enc (output_encoding slf1) = block enc (output_encoding slf)"
    using s(2) by simp
  have len1: "length bs1 = length (entries_among slf t [i])"
    using arg_cong [OF bs1(2), of length] by simp
  have "map Inr (bs1 @ bs2)
      = map (\<lambda>(n, d). block enc (output_encoding slf) n d) (enumerate c (entries_among slf t (i # js)))"
    using bs1(2) bs2(2) entries_among_append [of slf t "[i]" js]
    by (simp add: same blk bs1(3) enumerate_append_eq len1)
  moreover have "lines slf' = lines slf @ (bs1 @ bs2)" using bs1(1) bs2(1) by simp
  moreover have "c' = c + length (bs1 @ bs2)" using bs1(3) bs2(3) by simp
  ultimately have a: "\<exists>bs. lines slf' = lines slf @ bs
      \<and> map Inr bs = map (\<lambda>(n, d). block enc (output_encoding slf) n d) (enumerate c (entries_among slf t (i # js)))
      \<and> c' = c + length bs" by blast
  have b: "output_encoding slf' = output_encoding slf" using ih s(2) by simp
  have c: "length (subtitles slf') = length (subtitles slf)" using ih s(3) by simp
  have f: "sub_dialogs (subtitles slf' ! j) t' = sub_dialogs (subtitles slf ! j) t'"
    if "t' \<noteq> t \<or> j \<notin> set (i # js)" for j t'
  proof -
    from that have "t' \<noteq> t \<or> j \<notin> set js" and "j \<noteq> i \<or> t' \<noteq> t" by auto
    with ih s(4) show ?thesis by metis
  qed
  from a b c f show ?case by blast
qed

lemma entries_at_cong:
  assumes "length (subtitles slf') = length (subtitles slf)"
    and "\<And>j. sub_dialogs (subtitles slf' ! j) t = sub_dialogs (subtitles slf ! j) t"
  shows "entries_at slf' t = entries_at slf t"
proof -
  have "entries_among slf' t [0..<length (subtitles slf)] = entries_among slf t [0..<length (subtitles slf)]"
    by (rule entries_among_cong) (rule assms(2))
  then show ?thesis using entries_among_all [of slf' t] entries_among_all [of slf t] assms(1) by simp
qed

lemma block_enumerate_Pair:
  "map (\<lambda>(n, (t, d)). block enc (output_encoding slf) n d) (enumerate c (map (Pair t) xs))
     = map (\<lambda>(n, d). block enc (output_encoding slf) n d) (enumerate c xs)"
  by (induction xs arbitrary: c) simp_all

lemma merge_outer:
  assumes "for_each (\<lambda>t st. for_each (merge_sub enc t) [0..<length (subtitles (fst st))] st) ts (slf, c)
             = (None, (slf', c'))"
    and "distinct ts"
  shows "(\<exists>bs. lines slf' = lines slf @ bs
      \<and> map Inr bs = map (\<lambda>(n, (t, d)). block enc (output_encoding slf) n d)
                        (enumerate c (concat (map (\<lambda>t. map (Pair t) (entries_at slf t)) ts)))
      \<and> c' = c + length bs)
    \<and> output_encoding slf' = output_encoding slf
    \<and> length (subtitles slf') = length (subtitles slf)
    \<and> (\<forall>j t'. t' \<notin> set ts \<longrightarrow>
           sub_dialogs (subtitles slf' ! j) t' = sub_dialogs (subtitles slf ! j) t')"
  using assms
proof (induction ts arbitrary: slf c)
  case Nil
  then show ?case by simp
next
  case (Cons t ts)
  obtain e1 slf1 c1 where
    inner: "for_each (merge_sub enc t) [0..<length (subtitles slf)] (slf, c) = (e1, (slf1, c1))"
    using prod_cases3 by blast
  with Cons.prems(1) have e1: "e1 = None" by (cases e1) simp_all
  with inner Cons.prems(1) have rest:
    "for_each (\<lambda>t st. for_each (merge_sub enc t) [0..<length (subtitles (fst st))] st) ts (slf1, c1)
       = (None, (slf', c'))" by simp
  have "distinct [0..<length (subtitles slf)]" by simp
  from merge_inner [OF inner [unfolded e1] this]
  have s: "\<exists>bs. lines slf1 = lines slf @ bs
      \<and> map Inr bs = map (\<lambda>(n, d). block enc (output_encoding slf) n d)
                        (enumerate c (entries_among slf t [0..<length (subtitles slf)]))
      \<and> c1 = c + length bs"
    and enc1: "output_encoding slf1 = output_encoding slf"
    and len1: "length (subtitles slf1) = length (subtitles slf)"
    and fr1: "\<And>j t'. t' \<noteq> t \<Longrightarrow>
           sub_dialogs (subtitles slf1 ! j) t' = sub_dialogs (subtitles slf ! j) t'"
    by simp_all
  from s obtain bs1 where bs1: "lines slf1 = lines slf @ bs1"
    "map Inr bs1 = map (\<lambda>(n, d). block enc (output_encoding slf) n d) (enumerate c (entries_at slf t))"
    "c1 = c + length bs1" by (auto simp: entries_among_all)
  have d: "distinct ts" and nt: "t \<notin> set ts" using Cons.prems(2) by simp_all
  note ih = Cons.IH [OF rest d]
  from ih obtain bs2 where bs2: "lines slf' = lines slf1 @ bs2"
    "map Inr bs2 = map (\<lambda>(n, (t, d)). block enc (output_encoding slf1) n d)
                      (enumerate c1 (concat (map (\<lambda>t. map (Pair t) (entries_at slf1 t)) ts)))"
    "c' = c1 + length bs2" by blast
  have same: "map (\<lambda>t. map (Pair t) (entries_at slf1 t)) ts
            = map (\<lambda>t. map (Pair t) (entries_at slf t)) ts"
  proof (rule map_cong [OF refl])
    fix t' assume "t' \<in> set ts"
    with nt have "t' \<noteq> t" by auto
    then have "entries_at slf1 t' = entries_at slf t'"
      by (intro entries_at_cong len1 fr1)
    then show "map (Pair t') (entries_at slf1 t') = map (Pair t') (entries_at slf t')" by simp
  qed
  have blk: "block enc (output_encoding slf1) = block enc (output_encoding slf)"
    using enc1 by simp
  have l1: "length bs1 = length (entries_at slf t)"
    using arg_cong [OF bs1(2), of length] by simp
  have "map Inr (bs1 @ bs2)
      = map (\<lambda>(n, (t, d)). block enc (output_encoding slf) n d)
          (enumerate c (concat (map (\<lambda>t. map (Pair t) (entries_at slf t)) (t # ts))))"
    using bs1(2) bs2(2)
    by (simp add: same blk bs1(3) enumerate_append_eq l1 block_enumerate_Pair)
  moreover have "lines slf' = lines slf @ (bs1 @ bs2)" using bs1(1) bs2(1) by simp
  moreover have "c' = c + length (bs1 @ bs2)" using bs1(3) bs2(3) by simp
  ultimately have a: "\<exists>bs. lines slf' = lines slf @ bs
      \<and> map Inr bs = map (\<lambda>(n, (t, d)). block enc (output_encoding slf) n d)
          (enumerate c (concat (map (\<lambda>t. map (Pair t) (entries_at slf t)) (t # ts))))
      \<and> c' = c + length bs" by blast
  have b: "output_encoding slf' = output_encoding slf" using ih enc1 by simp
  have c: "length (subtitles slf') = length (subtitles slf)" using ih len1 by simp
  have f: "sub_dialogs (subtitles slf' ! j) t' = sub_dialogs (subtitles slf ! j) t'"
    if "t' \<notin> set (t # ts)" for j t'
  proof -
    from that have "t' \<notin> set ts" and "t' \<noteq> t" by auto
    with ih fr1 show ?thesis by metis
  qed
  from a b c f show ?case by blast
qed

lemma trim_last_length: "bs \<noteq> [] \<Longrightarrow> length (trim_last bs) = length bs"
  by (simp add: trim_last_def Let_def)

lemma merge_lines:
  assumes "fst (merge enc w) = Inr r"
  shows "\<exists>bs. bs \<noteq> [] \<and> lines (self (snd (merge enc w))) = trim_last bs
    \<and> map Inr bs = map (\<lambda>(n, (t, d)). block enc (output_encoding (self w)) n d) (enumerate 1 (plan (self w)))"
proof -
  let ?slf0 = "(self w)\<lparr>lines := [], timestamps := sort (remdups (timestamps (self w)))\<rparr>"
  obtain e slf count where loop: "merge_loops enc ?slf0 = (e, slf, count)"
    using prod_cases3 by blast
  note m = merge_cases [OF loop]
  from assms m have e: "e = None" by (cases e) simp_all
  from assms m e have ne: "lines slf \<noteq> []" by (cases "lines slf = []") simp_all
  from m e ne have l: "lines (self (snd (merge enc w))) = trim_last (lines slf)"
    by (cases "writable w (get_output_path (slf\<lparr>lines := trim_last (lines slf)\<rparr>))") simp_all
  from loop e have run:
    "for_each (\<lambda>t st. for_each (merge_sub enc t) [0..<length (subtitles (fst st))] st)
       (sort (remdups (timestamps (self w)))) (?slf0, 1) = (None, (slf, count))"
    by (simp add: merge_loops_def)
  have "distinct (sort (remdups (timestamps (self w))))" by simp
  from merge_outer [OF run this] obtain bs where bs: "lines slf = bs"
    "map Inr bs = map (\<lambda>(n, (t, d)). block enc (output_encoding ?slf0) n d)
        (enumerate 1 (concat (map (\<lambda>t. map (Pair t) (entries_at ?slf0 t))
                                 (sort (remdups (timestamps (self w)))))))"
    by auto
  have blk: "block enc (output_encoding ?slf0) = block enc (output_encoding (self w))"
    by simp
  have ent: "entries_at ?slf0 = entries_at (self w)"
    by (intro ext) (simp add: entries_at_def)
  from bs(2) have "map Inr bs = map (\<lambda>(n, (t, d)). block enc (output_encoding (self w)) n d) (enumerate 1 (plan (self w)))"
    by (simp add: blk ent plan_def)
  with ne l bs(1) show ?thesis by blast
qed

lemma sorted_concat_groups:
  "sorted ts \<Longrightarrow> sorted (map fst (concat (map (\<lambda>t. map (Pair t) (E t)) ts)))"
  by (induction ts) (auto simp: sorted_append comp_def map_replicate_const)

lemma sorted_plan: "sorted (map fst (plan slf))"
  unfolding plan_def by (rule sorted_concat_groups) simp

lemma length_plan:
  "length (plan slf) = (\<Sum>t\<leftarrow>sort (remdups (timestamps slf)). length (entries_at slf t))"
  by (simp add: plan_def length_concat comp_def)


text \<open>
  The session with three sources: what \<open>merge\<close> returns, the blocks it leaves in
  \<open>self.lines\<close>, the entries by start time and source, and the entries at 00:00:05,000.
\<close>

lemma session_three_merges: "fst (merge py_encode session_three) = Inr None"
  by code_simp

lemma session_three_lines:
  "lines (self (snd (merge py_encode session_three)))
   = [BOM_UTF8 @ ascii (''1'' @ [NL] @ ''00:00:01,000 --> 00:00:02,000'' @ [NL]
                         @ white_open @ ''Hello</font>'' @ [NL]),
      ascii ([NL] @ ''2'' @ [NL] @ ''00:00:05,000 --> 00:00:06,000'' @ [NL]
             @ white_open @ ''Hi</font>'' @ [NL]),
      ascii ([NL] @ ''3'' @ [NL] @ ''00:00:05,000 --> 00:00:07,000'' @ [NL]
             @ white_open @ ''Salut</font>'')]"
  by code_simp

lemma session_three_plan:
  "plan (self session_three)
   = [(1000000, ''00:00:01,000 --> 00:00:02,000'' @ [NL] @ white_open @ ''Hello</font>'' @ [NL]),
      (5000000, ''00:00:05,000 --> 00:00:06,000'' @ [NL] @ white_open @ ''Hi</font>'' @ [NL]),
      (5000000, ''00:00:05,000 --> 00:00:07,000'' @ [NL] @ white_open @ ''Salut</font>'' @ [NL])]"
  by code_simp


text \<open>
  An entry that the output encoding cannot represent does not stop \<open>merge\<close>: the block
  holds the number and the message of \<open>_encode\<close> in place of the timecode line and text.
\<close>

lemma merge_unencodable_entry:
  "fst (merge py_encode session_accent) = Inr None
   \<and> lines (self (snd (merge py_encode session_accent)))
       = [ascii (''1'' @ [NL]
                 @ ''An error has been occured in encoing by specifed `output_encoding`'')]"
  by code_simp




text \<open>
  Claim C2, as the code has it. When \<open>merge\<close> succeeds, the blocks are those of the
  entries of \<open>plan\<close> in its order, whose start times ascend (two neighbours may have the
  same start time). The numbers paired with the entries are 1, 2, ... up to the number
  of blocks, and \<open>block\<close> writes the decimal digits of its number at the head of each
  block. The number of blocks is the number of entries: the sum, over the distinct start
  times, of the number of sources with an entry at that time.
\<close>

theorem merge_blocks_numbered_in_time_order:
  assumes "fst (merge enc w) = Inr r"
  shows "\<exists>bs. lines (self (snd (merge enc w))) = trim_last bs
    \<and> length (trim_last bs) = length bs
    \<and> map Inr bs = map (\<lambda>(n, (t, d)). block enc (output_encoding (self w)) n d)
                      (enumerate 1 (plan (self w)))
    \<and> map fst (enumerate 1 (plan (self w))) = [1..<Suc (length bs)]
    \<and> sorted (map fst (plan (self w)))
    \<and> length bs = (\<Sum>t\<leftarrow>sort (remdups (timestamps (self w))). length (entries_at (self w) t))"
proof -
  from merge_lines [OF assms] obtain bs where bs: "bs \<noteq> []"
    "lines (self (snd (merge enc w))) = trim_last bs"
    "map Inr bs = map (\<lambda>(n, (t, d)). block enc (output_encoding (self w)) n d)
                    (enumerate 1 (plan (self w)))"
    by blast
  from arg_cong [OF bs(3), of length] have l: "length bs = length (plan (self w))" by simp
  then have n: "map fst (enumerate 1 (plan (self w))) = [1..<Suc (length bs)]" by simp
  have a: "length (trim_last bs) = length bs" by (rule trim_last_length [OF bs(1)])
  have c: "length bs = (\<Sum>t\<leftarrow>sort (remdups (timestamps (self w))). length (entries_at (self w) t))"
    using l length_plan [of "self w"] by simp
  from bs(2) a bs(3) n sorted_plan [of "self w"] c show ?thesis by blast
qed

text \<open>
  Witness for C2: the session with three sources and two distinct start times. The
  three blocks carry the numbers 1, 2 and 3, and their start times are 00:00:01,000,
  00:00:05,000 and 00:00:05,000.
\<close>

theorem merge_blocks_numbered_in_time_order_witness:
  "fst (merge py_encode session_three) = Inr None
   \<and> map fst (plan (self session_three)) = [1000000, 5000000, 5000000]
   \<and> lines (self (snd (merge py_encode session_three)))
       = [BOM_UTF8 @ ascii (''1'' @ [NL] @ ''00:00:01,000 --> 00:00:02,000'' @ [NL]
                             @ white_open @ ''Hello</font>'' @ [NL]),
          ascii ([NL] @ ''2'' @ [NL] @ ''00:00:05,000 --> 00:00:06,000'' @ [NL]
                 @ white_open @ ''Hi</font>'' @ [NL]),
          ascii ([NL] @ ''3'' @ [NL] @ ''00:00:05,000 --> 00:00:07,000'' @ [NL]
                 @ white_open @ ''Salut</font>'')]
   \<and> (\<exists>bs. lines (self (snd (merge py_encode session_three))) = trim_last bs
    \<and> length (trim_last bs) = length bs
    \<and> map Inr bs = map (\<lambda>(n, (t, d)). block py_encode (output_encoding (self session_three)) n d)
                      (enumerate 1 (plan (self session_three)))
    \<and> map fst (enumerate 1 (plan (self session_three))) = [1..<Suc (length bs)]
    \<and> sorted (map fst (plan (self session_three)))
    \<and> length bs = (\<Sum>t\<leftarrow>sort (remdups (timestamps (self session_three))).
                       length (entries_at (self session_three) t)))"
proof -
  note h1 = session_three_merges
  have p: "map fst (plan (self session_three)) = [1000000, 5000000, 5000000]"
    by (simp add: session_three_plan)
  from merge_blocks_numbered_in_time_order [OF h1] h1 p session_three_lines
  show ?thesis by blast
qed

text \<open>
  Counterexample for C2 as stated: the session with two sources has one distinct start
  time and \<open>merge\<close> emits two blocks, both at that start time.
\<close>

theorem merge_same_time_not_strict:
  "length (lines (self (snd (merge py_encode session_en_fr)))) = 2
   \<and> length (remdups (timestamps (self session_en_fr))) = 1
   \<and> map fst (plan (self session_en_fr)) = [5000000, 5000000]"
  by code_simp

subsection \<open>The default colour\<close>

text \<open>
  With the default colour \<open>#FFFFFF\<close> the styling of \<open>_split_dialogs\<close> wraps the text
  of a cue in the font tag of that colour.
\<close>

lemma apply_style_white:
  "apply_style text (Some COLORS_WHITE) size' top'
     = (if top' then an8 else []) @ white_open @ apply_style text None size' False @ ''</font>''"
  by (simp add: apply_style_def Let_def COLORS_WHITE_def white_open_def split: option.splits)

text \<open>
  Claim C10 fails where one file has two cues with the same start time and the
  earlier one has a body of two lines: \<open>add\<close> with no \<open>color\<close> argument stores an
  entry in which \<open>there</font>\<close>, the rest of the earlier cue's text, stands outside
  the font tag that was opened for it. The entry is combined by
  \<open>split('\n', 2)[2]\<close>, which cuts the earlier text after its first line.
\<close>

theorem add_default_color_same_time_remnant:
  "map (\<lambda>sub. sub_dialogs sub 5000000)
     (subtitles (self (added (world1 ''utf-8'') ''two_lines.srt'')))
   = [Some (''00:00:05,000 --> 00:00:07,000'' @ [NL] @ ''there</font>'' @ [NL]
            @ white_open @ ''Yo</font>'' @ [NL])]"
  by code_simp

end
